theory Spec2Isabelle
  imports Main
begin

section \<open>JavaScript values\<close>

text \<open>
  The helpers of \<^verbatim>\<open>src/helpers/buttons.ts\<close> are written against \<^verbatim>\<open>any\<close>: they test
  truthiness, read properties and compare \<^verbatim>\<open>typeof\<close>. The values they can meet are modelled
  as plain data. \<open>JNum\<close> holds an integer-valued number, \<open>JNaN\<close> the one falsy number that is
  not zero. An object is its list of own properties in insertion order; a property is
  looked up with \<open>map_of\<close>.
\<close>

datatype jsval =
    JUndefined
  | JNull
  | JBool bool
  | JNum int
  | JNaN
  | JStr string
  | JArr "jsval list"
  | JObj "(string \<times> jsval) list"

datatype js_error = TypeError

text \<open>Sequencing of computations that may throw.\<close>

definition ebind :: "js_error + 'a \<Rightarrow> ('a \<Rightarrow> js_error + 'b) \<Rightarrow> js_error + 'b" where
  "ebind m f = (case m of Inl e \<Rightarrow> Inl e | Inr v \<Rightarrow> f v)"

text \<open>\<^verbatim>\<open>!!v\<close>\<close>

fun truthy :: "jsval \<Rightarrow> bool" where
  "truthy JUndefined = False"
| "truthy JNull = False"
| "truthy (JBool b) = b"
| "truthy (JNum n) = (n \<noteq> 0)"
| "truthy JNaN = False"
| "truthy (JStr s) = (s \<noteq> [])"
| "truthy (JArr xs) = True"
| "truthy (JObj kvs) = True"

text \<open>\<^verbatim>\<open>typeof v\<close>\<close>

fun typeof :: "jsval \<Rightarrow> string" where
  "typeof JUndefined = ''undefined''"
| "typeof JNull = ''object''"
| "typeof (JBool b) = ''boolean''"
| "typeof (JNum n) = ''number''"
| "typeof JNaN = ''number''"
| "typeof (JStr s) = ''string''"
| "typeof (JArr xs) = ''object''"
| "typeof (JObj kvs) = ''object''"

text \<open>
  \<^verbatim>\<open>v.k\<close> for the property names the helpers read. Reading a property of \<^verbatim>\<open>undefined\<close> or
  \<^verbatim>\<open>null\<close> throws a TypeError. None of the names read by the helpers is defined on the
  prototype of a string, number, boolean, array or plain object, apart from \<^verbatim>\<open>length\<close>.
\<close>

fun get_prop :: "jsval \<Rightarrow> string \<Rightarrow> js_error + jsval" where
  "get_prop JUndefined k = Inl TypeError"
| "get_prop JNull k = Inl TypeError"
| "get_prop (JObj kvs) k = Inr (case map_of kvs k of None \<Rightarrow> JUndefined | Some v \<Rightarrow> v)"
| "get_prop (JStr s) k = Inr (if k = ''length'' then JNum (int (length s)) else JUndefined)"
| "get_prop (JArr xs) k = Inr (if k = ''length'' then JNum (int (length xs)) else JUndefined)"
| "get_prop (JBool b) k = Inr JUndefined"
| "get_prop (JNum n) k = Inr JUndefined"
| "get_prop JNaN k = Inr JUndefined"

text \<open>\<^verbatim>\<open>a || b\<close> on values already evaluated.\<close>

definition js_or :: "jsval \<Rightarrow> jsval \<Rightarrow> jsval" where
  "js_or a b = (if truthy a then a else b)"

text \<open>\<^verbatim>\<open>v === undefined || v === null\<close>\<close>

definition nullish :: "jsval \<Rightarrow> bool" where
  "nullish v = (v = JUndefined \<or> v = JNull)"

section \<open>Button type detection\<close>

text \<open>\<^verbatim>\<open>getButtonType\<close>, \<^verbatim>\<open>buttons.ts\<close> lines 97 to 115.\<close>

definition getButtonType :: "jsval \<Rightarrow> js_error + jsval" where
  "getButtonType button =
    (if \<not> truthy button \<or> typeof button \<noteq> ''object'' then Inr (JStr ''quick_reply'')
     else ebind (get_prop button ''type'') (\<lambda>ty.
       if truthy ty then Inr ty
       else ebind (get_prop button ''url'') (\<lambda>url.
       if truthy url then Inr (JStr ''cta_url'')
       else ebind (get_prop button ''copyText'') (\<lambda>copyText.
       if truthy copyText then Inr (JStr ''cta_copy'')
       else ebind (get_prop button ''phoneNumber'') (\<lambda>phoneNumber.
       if truthy phoneNumber then Inr (JStr ''cta_call'')
       else ebind (get_prop button ''catalogLink'') (\<lambda>catalogLink.
       if truthy catalogLink then Inr (JStr ''cta_catalog'')
       else ebind (get_prop button ''reminderText'') (\<lambda>reminderText.
       if truthy reminderText then Inr (JStr ''cta_reminder'')
       else ebind (get_prop button ''reminderId'') (\<lambda>reminderId.
       if truthy reminderId then Inr (JStr ''cta_cancel_reminder'')
       else ebind (get_prop button ''addressId'') (\<lambda>addressId.
       if truthy addressId then Inr (JStr ''address_message'')
       else ebind (get_prop button ''options'') (\<lambda>options.
       if truthy options then Inr (JStr ''single_select'')
       else Inr (JStr ''quick_reply'')))))))))))"

section \<open>Strings\<close>

text \<open>Decimal rendering of an array index, as a template literal does it.\<close>

definition digit_char :: "nat \<Rightarrow> char" where
  "digit_char d = ''0123456789'' ! d"

fun show_nat :: "nat \<Rightarrow> string" where
  "show_nat n = (if n < 10 then [digit_char n] else show_nat (n div 10) @ [digit_char (n mod 10)])"

declare show_nat.simps [simp del]

text \<open>
  The digits that JavaScript prints for a number that is an integer: all of them below
  \<open>10\<^sup>2\<^sup>1\<close>, and from there on the exponent form, the first digit, the other digits
  without the zeros at the end, and the exponent. The digits are those of the integer
  itself. JavaScript prints the shortest digits that identify the number, which are the
  same for an integer below \<open>2\<^sup>5\<^sup>3\<close> and for one of at most 15 significant digits.
\<close>

definition strip_zeros :: "string \<Rightarrow> string" where
  "strip_zeros ds = rev (dropWhile (\<lambda>c. c = CHR ''0'') (rev ds))"

definition show_exponent :: "nat \<Rightarrow> string" where
  "show_exponent m =
     (case strip_zeros (show_nat m) of
        [] \<Rightarrow> []
      | d # ds \<Rightarrow> d # (if ds = [] then [] else CHR ''.'' # ds) @ ''e+'' @
                  show_nat (length (show_nat m) - 1))"

definition show_int :: "int \<Rightarrow> string" where
  "show_int n =
     (let m = nat \<bar>n\<bar>;
          digits = (if m < 10 ^ 21 then show_nat m else show_exponent m)
      in if n < 0 then CHR ''-'' # digits else digits)"

fun join_with :: "string \<Rightarrow> string list \<Rightarrow> string" where
  "join_with sep [] = []"
| "join_with sep [x] = x"
| "join_with sep (x # y # ys) = x @ sep @ join_with sep (y # ys)"

text \<open>
  The ToString conversion that \<^verbatim>\<open>RegExp.prototype.test\<close> applies to its argument. A plain
  object is converted by the \<^verbatim>\<open>toString\<close> it inherits, unless it has a property
  \<^verbatim>\<open>toString\<close> of its own: that one is data and cannot be called, the inherited \<^verbatim>\<open>valueOf\<close>
  gives the object back, and the conversion throws a TypeError. An array joins the
  conversions of its elements, the empty string for \<^verbatim>\<open>undefined\<close> and \<^verbatim>\<open>null\<close>, and throws
  when one of them does.
\<close>

fun to_string :: "jsval \<Rightarrow> js_error + string"
  and to_strings :: "jsval list \<Rightarrow> js_error + string list" where
  "to_string JUndefined = Inr ''undefined''"
| "to_string JNull = Inr ''null''"
| "to_string (JBool b) = Inr (if b then ''true'' else ''false'')"
| "to_string (JNum n) = Inr (show_int n)"
| "to_string JNaN = Inr ''NaN''"
| "to_string (JStr s) = Inr s"
| "to_string (JArr xs) =
     (case to_strings xs of Inl e \<Rightarrow> Inl e | Inr parts \<Rightarrow> Inr (join_with '','' parts))"
| "to_string (JObj kvs) =
     (case map_of kvs ''toString'' of
        None \<Rightarrow> Inr ''[object Object]''
      | Some v \<Rightarrow> Inl TypeError)"
| "to_strings [] = Inr []"
| "to_strings (x # xs) =
     (case (if x = JUndefined \<or> x = JNull then Inr [] else to_string x) of
        Inl e \<Rightarrow> Inl e
      | Inr part \<Rightarrow> (case to_strings xs of Inl e \<Rightarrow> Inl e | Inr parts \<Rightarrow> Inr (part # parts)))"

section \<open>Regular expressions\<close>

text \<open>
  The fragment of regular expressions that the phone pattern uses: a literal character, a
  character range, sequence, \<^verbatim>\<open>?\<close> and the empty expression. \<open>rmatch r s k\<close> matches a prefix
  of \<open>s\<close> against \<open>r\<close>, greedily with backtracking, and hands the rest to the continuation
  \<open>k\<close>.
\<close>

datatype rexp =
    Eps
  | Chr char
  | Rng char char
  | Seq rexp rexp
  | Opt rexp

fun rmatch :: "rexp \<Rightarrow> string \<Rightarrow> (string \<Rightarrow> bool) \<Rightarrow> bool" where
  "rmatch Eps s k = k s"
| "rmatch (Chr c) s k = (case s of [] \<Rightarrow> False | x # xs \<Rightarrow> x = c \<and> k xs)"
| "rmatch (Rng lo hi) s k =
     (case s of [] \<Rightarrow> False
      | x # xs \<Rightarrow> (of_char lo :: nat) \<le> of_char x \<and> (of_char x :: nat) \<le> of_char hi \<and> k xs)"
| "rmatch (Seq r1 r2) s k = rmatch r1 s (\<lambda>rest. rmatch r2 rest k)"
| "rmatch (Opt r) s k = (rmatch r s k \<or> k s)"

text \<open>\<^verbatim>\<open>r{n}\<close> and \<^verbatim>\<open>r{lo,hi}\<close> unfolded into the fragment.\<close>

fun rep_exact :: "rexp \<Rightarrow> nat \<Rightarrow> rexp" where
  "rep_exact r 0 = Eps"
| "rep_exact r (Suc n) = Seq r (rep_exact r n)"

fun rep_upto :: "rexp \<Rightarrow> nat \<Rightarrow> rexp" where
  "rep_upto r 0 = Eps"
| "rep_upto r (Suc n) = Opt (Seq r (rep_upto r n))"

definition rep_between :: "rexp \<Rightarrow> nat \<Rightarrow> nat \<Rightarrow> rexp" where
  "rep_between r lo hi = Seq (rep_exact r lo) (rep_upto r (hi - lo))"

text \<open>\<^verbatim>\<open>/^r$/.test(s)\<close>: with no flag, \<^verbatim>\<open>^\<close> and \<^verbatim>\<open>$\<close> are the two ends of the input.\<close>

definition regex_test :: "rexp \<Rightarrow> string \<Rightarrow> bool" where
  "regex_test r s = rmatch r s (\<lambda>rest. rest = [])"

text \<open>\<^verbatim>\<open>\d\<close>\<close>

definition digit :: rexp where
  "digit = Rng CHR ''0'' CHR ''9''"

text \<open>\<^verbatim>\<open>/^\+?[1-9]\d{1,14}$/\<close>, \<^verbatim>\<open>buttons.ts\<close> line 189.\<close>

definition phone_pattern :: rexp where
  "phone_pattern = Seq (Opt (Chr CHR ''+'')) (Seq (Rng CHR ''1'' CHR ''9'') (rep_between digit 1 14))"

text \<open>\<^verbatim>\<open>/^r$/.test(v)\<close> for any value: the value is converted to a string first.\<close>

definition RegExp_test :: "rexp \<Rightarrow> jsval \<Rightarrow> js_error + bool" where
  "RegExp_test r v = ebind (to_string v) (\<lambda>s. Inr (regex_test r s))"

section \<open>Validation\<close>

text \<open>\<^verbatim>\<open>ValidationError\<close>, \<^verbatim>\<open>ValidationWarning\<close> and \<^verbatim>\<open>ValidationResult\<close> of the type declarations.\<close>

record validation_error =
  path :: string
  message :: string
  expected :: jsval
  val :: jsval

record validation_warning =
  w_path :: string
  w_message :: string
  suggestion :: jsval

record validation_result =
  isValid :: bool
  errors :: "validation_error list"
  warnings :: "validation_warning list"

text \<open>\<^verbatim>\<open>isValidButtonId\<close>, \<^verbatim>\<open>buttons.ts\<close> lines 120 to 122.\<close>

definition isValidButtonId :: "jsval \<Rightarrow> bool" where
  "isValidButtonId bid =
     (typeof bid = ''string'' \<and>
      (case bid of JStr s \<Rightarrow> length s > 0 \<and> length s \<le> 64 | _ \<Rightarrow> False))"

text \<open>\<^verbatim>\<open>Array.isArray\<close>\<close>

fun isArray :: "jsval \<Rightarrow> bool" where
  "isArray (JArr xs) = True"
| "isArray _ = False"

text \<open>
  The callback handed to \<^verbatim>\<open>buttons.forEach\<close>, \<^verbatim>\<open>buttons.ts\<close> lines 155 to 210. The array
  \<^verbatim>\<open>errors\<close> that it pushes to is passed in and handed back.
\<close>

definition validate_button ::
  "validation_error list \<Rightarrow> jsval \<Rightarrow> nat \<Rightarrow> js_error + validation_error list" where
  "validate_button errs button index =
     ebind (get_prop button ''id'') (\<lambda>bid.
     let errs1 =
       (if \<not> isValidButtonId bid then
          errs @ [\<lparr>path = ''buttons['' @ show_nat index @ ''].id'',
                   message = ''Button ID must be a non-empty string (max 64 chars)'',
                   expected = JStr ''string (1-64 chars)'',
                   val = bid\<rparr>]
        else errs)
     in
     ebind (get_prop button ''title'') (\<lambda>title.
     let errs2 =
       (if \<not> truthy title \<or> typeof title \<noteq> ''string'' then
          errs1 @ [\<lparr>path = ''buttons['' @ show_nat index @ ''].title'',
                    message = ''Button title is required and must be a string'',
                    expected = JStr ''string'',
                    val = title\<rparr>]
        else errs1)
     in
     ebind (getButtonType button) (\<lambda>buttonType.
       if buttonType = JStr ''cta_url'' then
         ebind (get_prop button ''url'') (\<lambda>url.
           Inr (if \<not> truthy url \<or> typeof url \<noteq> ''string'' then
                  errs2 @ [\<lparr>path = ''buttons['' @ show_nat index @ ''].url'',
                            message = ''URL button requires a valid URL string'',
                            expected = JStr ''string (URL format)'',
                            val = url\<rparr>]
                else errs2))
       else if buttonType = JStr ''cta_call'' then
         ebind (get_prop button ''phoneNumber'') (\<lambda>phoneNumber.
         ebind (if \<not> truthy phoneNumber then Inr True
                else ebind (RegExp_test phone_pattern phoneNumber) (\<lambda>ok. Inr (\<not> ok)))
           (\<lambda>invalid.
           Inr (if invalid then
                  errs2 @ [\<lparr>path = ''buttons['' @ show_nat index @ ''].phoneNumber'',
                            message = ''Call button requires a valid phone number'',
                            expected = JStr ''string (E.164 format)'',
                            val = phoneNumber\<rparr>]
                else errs2)))
       else if buttonType = JStr ''cta_copy'' then
         ebind (get_prop button ''copyText'') (\<lambda>copyText.
           Inr (if \<not> truthy copyText \<or> typeof copyText \<noteq> ''string'' then
                  errs2 @ [\<lparr>path = ''buttons['' @ show_nat index @ ''].copyText'',
                            message = ''Copy button requires copyText string'',
                            expected = JStr ''string'',
                            val = copyText\<rparr>]
                else errs2))
       else Inr errs2)))"

text \<open>\<^verbatim>\<open>Array.prototype.forEach\<close> over the elements from index \<open>i\<close> on; a throw ends the loop.\<close>

fun forEach_from ::
  "nat \<Rightarrow> jsval list \<Rightarrow> validation_error list \<Rightarrow> js_error + validation_error list" where
  "forEach_from i [] errs = Inr errs"
| "forEach_from i (b # bs) errs = ebind (validate_button errs b i) (forEach_from (Suc i) bs)"

text \<open>
  \<^verbatim>\<open>validateInteractiveMessage\<close>, \<^verbatim>\<open>buttons.ts\<close> lines 127 to 217. \<^verbatim>\<open>buttons.forEach\<close> is
  called whatever the two checks before it found: on \<^verbatim>\<open>undefined\<close> or \<^verbatim>\<open>null\<close> the property
  read throws, on any other value that is not an array \<^verbatim>\<open>forEach\<close> is \<^verbatim>\<open>undefined\<close> and
  the call throws.
\<close>

definition validateInteractiveMessage :: "jsval \<Rightarrow> jsval \<Rightarrow> js_error + validation_result" where
  "validateInteractiveMessage config buttons =
     ebind (get_prop config ''body'') (\<lambda>body.
     let errs1 =
       (if \<not> truthy body \<or> typeof body \<noteq> ''string'' then
          [\<lparr>path = ''body'',
            message = ''Body text is required and must be a string'',
            expected = JStr ''string'',
            val = body\<rparr>]
        else []);
         errs2 =
       (if \<not> isArray buttons \<or> (case buttons of JArr bs \<Rightarrow> length bs = 0 | _ \<Rightarrow> False) then
          errs1 @ [\<lparr>path = ''buttons'',
                    message = ''At least one button is required'',
                    expected = JStr ''array with minimum 1 item'',
                    val = buttons\<rparr>]
        else errs1)
     in
     ebind (case buttons of JArr bs \<Rightarrow> forEach_from 0 bs errs2 | _ \<Rightarrow> Inl TypeError) (\<lambda>errs.
       Inr \<lparr>isValid = (length errs = 0), errors = errs, warnings = []\<rparr>))"

section \<open>JSON text\<close>

text \<open>
  \<^verbatim>\<open>JSON.stringify\<close> on plain data. A string is quoted with the escapes of the ECMAScript
  operation QuoteJSONString; \<^verbatim>\<open>undefined\<close> has no JSON text, is left out of an object and
  is \<^verbatim>\<open>null\<close> inside an array; \<^verbatim>\<open>NaN\<close> is \<^verbatim>\<open>null\<close>.
\<close>

definition hex_char :: "nat \<Rightarrow> char" where
  "hex_char d = ''0123456789abcdef'' ! d"

definition json_quote_char :: "char \<Rightarrow> string" where
  "json_quote_char c =
     (if c = CHR 0x22 then [CHR 0x5C, CHR 0x22]
      else if c = CHR 0x5C then [CHR 0x5C, CHR 0x5C]
      else if c = CHR 0x08 then [CHR 0x5C, CHR ''b'']
      else if c = CHR 0x09 then [CHR 0x5C, CHR ''t'']
      else if c = CHR 0x0A then [CHR 0x5C, CHR ''n'']
      else if c = CHR 0x0C then [CHR 0x5C, CHR ''f'']
      else if c = CHR 0x0D then [CHR 0x5C, CHR ''r'']
      else if (of_char c :: nat) < 32 then
        [CHR 0x5C, CHR ''u'', CHR ''0'', CHR ''0'',
         hex_char (of_char c div 16), hex_char (of_char c mod 16)]
      else [c])"

definition json_quote :: "string \<Rightarrow> string" where
  "json_quote s = CHR 0x22 # concat (map json_quote_char s) @ [CHR 0x22]"

fun json_text :: "jsval \<Rightarrow> string option" where
  "json_text JUndefined = None"
| "json_text JNull = Some ''null''"
| "json_text (JBool b) = Some (if b then ''true'' else ''false'')"
| "json_text (JNum n) = Some (show_int n)"
| "json_text JNaN = Some ''null''"
| "json_text (JStr s) = Some (json_quote s)"
| "json_text (JArr xs) =
     Some (''['' @ join_with '',''
             (map (\<lambda>x. case json_text x of None \<Rightarrow> ''null'' | Some t \<Rightarrow> t) xs) @ '']'')"
| "json_text (JObj kvs) =
     Some (''{'' @ join_with '',''
             (concat (map (\<lambda>kv. case json_text (snd kv) of None \<Rightarrow> []
                                  | Some t \<Rightarrow> [json_quote (fst kv) @ '':'' @ t]) kvs)) @ ''}'')"

definition JSON_stringify :: "jsval \<Rightarrow> jsval" where
  "JSON_stringify v = (case json_text v of None \<Rightarrow> JUndefined | Some t \<Rightarrow> JStr t)"

section \<open>Normalization\<close>

text \<open>The truth value of \<^verbatim>\<open>b && b.k1 && b.k2\<close>.\<close>

definition both_truthy :: "jsval \<Rightarrow> string \<Rightarrow> string \<Rightarrow> js_error + bool" where
  "both_truthy b k1 k2 =
     (if \<not> truthy b then Inr False
      else ebind (get_prop b k1) (\<lambda>v1.
        if \<not> truthy v1 then Inr False
        else ebind (get_prop b k2) (\<lambda>v2. Inr (truthy v2))))"

text \<open>The callback handed to \<^verbatim>\<open>buttons.map\<close>, \<^verbatim>\<open>buttons.ts\<close> lines 55 to 91.\<close>

definition normalize_button :: "jsval \<Rightarrow> js_error + jsval" where
  "normalize_button b =
     ebind (both_truthy b ''name'' ''buttonParamsJson'') (\<lambda>full.
     if full then Inr b
     else ebind (both_truthy b ''id'' ''title'') (\<lambda>legacy.
     if legacy then
       ebind (get_prop b ''id'') (\<lambda>bid.
       ebind (get_prop b ''title'') (\<lambda>title.
       ebind (get_prop b ''subtitle'') (\<lambda>subtitle.
       ebind (get_prop b ''disabled'') (\<lambda>disabled.
       let buttonParams = JObj [(''id'', bid), (''title'', title),
                                (''subtitle'', js_or subtitle JNull),
                                (''disabled'', js_or disabled (JBool False))]
       in ebind (getButtonType b) (\<lambda>name.
            Inr (JObj [(''name'', name),
                       (''buttonParamsJson'', JSON_stringify buttonParams)]))))))
     else ebind (both_truthy b ''buttonId'' ''buttonText'') (\<lambda>old.
     if old then
       ebind (get_prop b ''buttonId'') (\<lambda>buttonId.
       ebind (get_prop b ''buttonText'') (\<lambda>buttonText.
       ebind (get_prop buttonText ''displayText'') (\<lambda>displayText.
       ebind (get_prop b ''subtitle'') (\<lambda>subtitle.
       ebind (get_prop b ''disabled'') (\<lambda>disabled.
       let buttonParams = JObj [(''id'', buttonId), (''title'', js_or displayText buttonText),
                                (''subtitle'', js_or subtitle JNull),
                                (''disabled'', js_or disabled (JBool False))]
       in ebind (getButtonType b) (\<lambda>name.
            Inr (JObj [(''name'', name),
                       (''buttonParamsJson'', JSON_stringify buttonParams)])))))))
     else Inr b)))"

text \<open>\<^verbatim>\<open>Array.prototype.map\<close> with a callback that may throw.\<close>

fun map_e :: "('a \<Rightarrow> js_error + 'b) \<Rightarrow> 'a list \<Rightarrow> js_error + 'b list" where
  "map_e f [] = Inr []"
| "map_e f (x # xs) = ebind (f x) (\<lambda>y. ebind (map_e f xs) (\<lambda>ys. Inr (y # ys)))"

text \<open>
  \<^verbatim>\<open>buildInteractiveButtons\<close>, \<^verbatim>\<open>buttons.ts\<close> lines 54 to 92. The parameter defaults to the
  empty array when it is \<^verbatim>\<open>undefined\<close>; \<^verbatim>\<open>map\<close> exists on arrays only.
\<close>

definition buildInteractiveButtons :: "jsval \<Rightarrow> js_error + jsval" where
  "buildInteractiveButtons buttons =
     (case (if buttons = JUndefined then JArr [] else buttons) of
        JArr bs \<Rightarrow> ebind (map_e normalize_button bs) (\<lambda>out. Inr (JArr out))
      | _ \<Rightarrow> Inl TypeError)"

section \<open>Message content\<close>

text \<open>The assignment \<^verbatim>\<open>o.k = v\<close> on the property list of \<open>o\<close>.\<close>

fun set_prop :: "(string \<times> jsval) list \<Rightarrow> string \<Rightarrow> jsval \<Rightarrow> (string \<times> jsval) list" where
  "set_prop [] k v = [(k, v)]"
| "set_prop ((k', v') # kvs) k v =
     (if k' = k then (k, v) # kvs else (k', v') # set_prop kvs k v)"

definition project_button :: "jsval \<Rightarrow> js_error + jsval" where
  "project_button button =
     ebind (get_prop button ''name'') (\<lambda>name.
     ebind (get_prop button ''buttonParamsJson'') (\<lambda>buttonParamsJson.
       Inr (JObj [(''name'', name), (''buttonParamsJson'', buttonParamsJson)])))"

text \<open>\<^verbatim>\<open>buildMessageContent\<close>, \<^verbatim>\<open>buttons.ts\<close> lines 284 to 326.\<close>

definition buildMessageContent :: "jsval \<Rightarrow> jsval \<Rightarrow> js_error + jsval" where
  "buildMessageContent config buttons =
     ebind (case buttons of JArr bs \<Rightarrow> map_e project_button bs | _ \<Rightarrow> Inl TypeError) (\<lambda>entries.
     ebind (get_prop config ''body'') (\<lambda>body.
     let params0 = [(''body'', JObj [(''text'', body)])] in
     ebind (get_prop config ''footer'') (\<lambda>footer.
     let params1 = (if truthy footer
                    then set_prop params0 ''footer'' (JObj [(''text'', footer)])
                    else params0) in
     ebind (get_prop config ''headerText'') (\<lambda>headerText.
     ebind (if truthy headerText then
              ebind (get_prop config ''headerType'') (\<lambda>headerType.
                Inr (set_prop params1 ''header''
                       (JObj [(''type'', js_or headerType (JNum 1)), (''text'', headerText)])))
            else Inr params1) (\<lambda>params2.
     ebind (get_prop config ''headerMedia'') (\<lambda>headerMedia.
     ebind (if truthy headerMedia then
              ebind (get_prop headerMedia ''mediaType'') (\<lambda>mediaType.
              ebind (get_prop headerMedia ''mediaUrl'') (\<lambda>mediaUrl.
              ebind (get_prop headerMedia ''mediaCaption'') (\<lambda>mediaCaption.
                Inr (set_prop params2 ''header''
                       (JObj [(''type'', if mediaType = JStr ''image'' then JNum 1
                                         else if mediaType = JStr ''video'' then JNum 2
                                         else JNum 3),
                              (''text'', js_or headerText (JStr [])),
                              (''media'', JObj [(''url'', mediaUrl),
                                                (''caption'', js_or mediaCaption (JStr []))])])))))
            else Inr params2) (\<lambda>params3.
       Inr (JObj [(''interactive'',
                   JObj [(''nativeFlow'',
                          JObj [(''buttons'', JArr entries),
                                (''messageParams'', JObj params3)])])]))))))))"

text \<open>\<^verbatim>\<open>content.interactive.nativeFlow.messageParams.header\<close>\<close>

definition header_of :: "jsval \<Rightarrow> js_error + jsval" where
  "header_of content =
     ebind (get_prop content ''interactive'') (\<lambda>interactive.
     ebind (get_prop interactive ''nativeFlow'') (\<lambda>nativeFlow.
     ebind (get_prop nativeFlow ''messageParams'') (\<lambda>messageParams.
       get_prop messageParams ''header'')))"

section \<open>The structured validation error\<close>

text \<open>
  \<^verbatim>\<open>InteractiveValidationError\<close> of \<^verbatim>\<open>types/validation.ts\<close>. Instances are objects with an
  identity: they live in a store, \<^verbatim>\<open>new\<close> takes the next free reference. The fields are
  those the class declares, with \<^verbatim>\<open>message\<close> of its base class; the stack trace that the
  engine records is left out. No method of the class writes to the arrays \<^verbatim>\<open>errors\<close> and
  \<^verbatim>\<open>warnings\<close>, so a field holds the list itself.
\<close>

record interactive_validation_error =
  e_name :: string
  e_message :: string
  e_context :: string
  e_errors :: "validation_error list"
  e_warnings :: "validation_warning list"
  e_example :: jsval

record store =
  objects :: "nat \<Rightarrow> interactive_validation_error option"
  next_ref :: nat

text \<open>
  The constructor, \<^verbatim>\<open>validation.ts\<close> lines 13 to 30. \<open>None\<close> for \<^verbatim>\<open>errors\<close> or \<^verbatim>\<open>warnings\<close> is
  an argument left \<^verbatim>\<open>undefined\<close>, which the parameter default replaces by the empty array.
\<close>

definition new_InteractiveValidationError ::
  "store \<Rightarrow> string \<Rightarrow> string \<Rightarrow> validation_error list option \<Rightarrow>
   validation_warning list option \<Rightarrow> jsval \<Rightarrow> nat \<times> store" where
  "new_InteractiveValidationError st msg ctx errs warns example =
     (let this = next_ref st;
          obj = \<lparr>e_name = ''InteractiveValidationError'',
                 e_message = msg,
                 e_context = ctx,
                 e_errors = (case errs of None \<Rightarrow> [] | Some es \<Rightarrow> es),
                 e_warnings = (case warns of None \<Rightarrow> [] | Some ws \<Rightarrow> ws),
                 e_example = example\<rparr>
      in (this, st\<lparr>objects := (objects st)(this := Some obj), next_ref := Suc this\<rparr>))"

text \<open>\<^verbatim>\<open>addContext\<close>, \<^verbatim>\<open>validation.ts\<close> lines 89 to 97, called on the object at \<open>this\<close>.\<close>

definition addContext :: "store \<Rightarrow> nat \<Rightarrow> string \<Rightarrow> js_error + nat \<times> store" where
  "addContext st this ctx =
     (case objects st this of
        None \<Rightarrow> Inl TypeError
      | Some e \<Rightarrow>
          Inr (new_InteractiveValidationError st
                 (e_message e @ '' in '' @ ctx)
                 (e_context e @ '' -> '' @ ctx)
                 (Some (e_errors e))
                 (Some (e_warnings e))
                 (e_example e)))"

section \<open>Reference definitions\<close>

text \<open>The value of a field, \<^verbatim>\<open>undefined\<close> where there is none to read.\<close>

definition field_of :: "jsval \<Rightarrow> string \<Rightarrow> jsval" where
  "field_of b k = (case get_prop b k of Inl e \<Rightarrow> JUndefined | Inr v \<Rightarrow> v)"

text \<open>\<^verbatim>\<open>k in b\<close> for a plain object \<open>b\<close>: the field is there, whatever its value.\<close>

definition present :: "jsval \<Rightarrow> string \<Rightarrow> bool" where
  "present b k = (case b of JObj kvs \<Rightarrow> map_of kvs k \<noteq> None | _ \<Rightarrow> False)"

text \<open>The ordered rule table of the classifier: field, tag.\<close>

definition rule_table :: "(string \<times> string) list" where
  "rule_table =
     [(''url'', ''cta_url''), (''copyText'', ''cta_copy''), (''phoneNumber'', ''cta_call''),
      (''catalogLink'', ''cta_catalog''), (''reminderText'', ''cta_reminder''),
      (''reminderId'', ''cta_cancel_reminder''), (''addressId'', ''address_message''),
      (''options'', ''single_select'')]"

text \<open>
  The classifier as the specification words it, over any test \<open>has\<close> of a field: a value
  that is not an object is a quick reply, a value with a \<^verbatim>\<open>type\<close> has that type, any other
  has the tag of the first rule of the table whose field it has.
\<close>

definition classify_by :: "(jsval \<Rightarrow> string \<Rightarrow> bool) \<Rightarrow> jsval \<Rightarrow> jsval" where
  "classify_by has b =
     (if typeof b = ''object'' \<and> b \<noteq> JNull then
        if has b ''type'' then field_of b ''type''
        else (case find (\<lambda>rule. has b (fst rule)) rule_table of
                None \<Rightarrow> JStr ''quick_reply''
              | Some rule \<Rightarrow> JStr (snd rule))
      else JStr ''quick_reply'')"

text \<open>With presence checks, as the specification has it.\<close>

definition classify_present :: "jsval \<Rightarrow> jsval" where
  "classify_present = classify_by present"

text \<open>With truthiness checks.\<close>

definition classify_truthy :: "jsval \<Rightarrow> jsval" where
  "classify_truthy = classify_by (\<lambda>b k. truthy (field_of b k))"

text \<open>\<^verbatim>\<open>a ?? b\<close>, the default the specification writes: \<open>b\<close> only for \<^verbatim>\<open>undefined\<close> and \<^verbatim>\<open>null\<close>.\<close>

definition js_coalesce :: "jsval \<Rightarrow> jsval \<Rightarrow> jsval" where
  "js_coalesce a b = (if nullish a then b else a)"

text \<open>A value of the declared type \<^verbatim>\<open>string | undefined\<close> of an optional string field.\<close>

definition optional_string :: "jsval \<Rightarrow> bool" where
  "optional_string v = (nullish v \<or> typeof v = ''string'')"









section \<open>The code in closed form\<close>

text \<open>
  The guard of the first normalization rule, \<^verbatim>\<open>buttons.ts\<close> line 57, on the fields of the
  entry: \<^verbatim>\<open>name\<close> and \<^verbatim>\<open>buttonParamsJson\<close> are both truthy. The code takes an entry for
  canonical when it passes this guard.
\<close>

definition canonical :: "jsval \<Rightarrow> bool" where
  "canonical b = (truthy (field_of b ''name'') \<and> truthy (field_of b ''buttonParamsJson''))"

text \<open>
  The phone number passes the check of line 189: it is truthy and \<^verbatim>\<open>test\<close> returns
  \<^verbatim>\<open>true\<close> for it.
\<close>

definition phone_passes :: "jsval \<Rightarrow> bool" where
  "phone_passes v = (truthy v \<and> RegExp_test phone_pattern v = Inr True)"



subsection \<open>The errors of the validator in closed form\<close>






subsection \<open>The normalizer in closed form\<close>

text \<open>
  The entry that the simple-legacy rule builds (\<^verbatim>\<open>buttons.ts\<close> lines 61 to 71), the entry
  that the old-Baileys rule builds (lines 76 to 86), and the value that the callback
  returns for \<open>b\<close>. \<open>normalized\<close> is shown below to be what \<open>normalize_button\<close> computes.
\<close>

definition legacy_entry :: "jsval \<Rightarrow> jsval" where
  "legacy_entry b =
     JObj [(''name'', classify_truthy b),
           (''buttonParamsJson'',
            JSON_stringify (JObj [(''id'', field_of b ''id''),
                                  (''title'', field_of b ''title''),
                                  (''subtitle'', js_or (field_of b ''subtitle'') JNull),
                                  (''disabled'', js_or (field_of b ''disabled'') (JBool False))]))]"

definition old_entry :: "jsval \<Rightarrow> jsval" where
  "old_entry b =
     JObj [(''name'', classify_truthy b),
           (''buttonParamsJson'',
            JSON_stringify (JObj [(''id'', field_of b ''buttonId''),
                                  (''title'', js_or (field_of (field_of b ''buttonText'') ''displayText'')
                                                    (field_of b ''buttonText'')),
                                  (''subtitle'', js_or (field_of b ''subtitle'') JNull),
                                  (''disabled'', js_or (field_of b ''disabled'') (JBool False))]))]"

definition normalized :: "jsval \<Rightarrow> jsval" where
  "normalized b =
     (if canonical b then b
      else if truthy (field_of b ''id'') \<and> truthy (field_of b ''title'') then legacy_entry b
      else if truthy (field_of b ''buttonId'') \<and> truthy (field_of b ''buttonText'') then old_entry b
      else b)"

section \<open>Basic facts\<close>

lemma ebind_Inr [simp]: "ebind (Inr v) f = f v"
  by (simp add: ebind_def)

lemma ebind_Inl [simp]: "ebind (Inl e) f = Inl e"
  by (simp add: ebind_def)

lemma get_prop_field: "\<not> nullish b \<Longrightarrow> get_prop b k = Inr (field_of b k)"
  by (cases b) (simp_all add: field_of_def nullish_def)

lemma get_prop_nullish: "nullish b \<Longrightarrow> get_prop b k = Inl TypeError"
  by (auto simp: nullish_def)

lemma truthy_not_nullish: "truthy b \<Longrightarrow> \<not> nullish b"
  by (cases b) (simp_all add: nullish_def)

section \<open>The classifier\<close>

lemma getButtonType_classify: "getButtonType b = Inr (classify_truthy b)"
proof (cases "truthy b \<and> typeof b = ''object''")
  case False
  then have "\<not> (typeof b = ''object'' \<and> b \<noteq> JNull)" by (cases b) auto
  with False show ?thesis
    by (auto simp add: getButtonType_def classify_truthy_def classify_by_def)
next
  case True
  then have o: "typeof b = ''object''" "b \<noteq> JNull" by auto
  from True have g: "\<And>k. get_prop b k = Inr (field_of b k)"
    by (simp add: get_prop_field truthy_not_nullish)
  show ?thesis using True o
    by (simp add: getButtonType_def classify_truthy_def classify_by_def g rule_table_def)
qed

text \<open>
  C5, as the claim states it, fails. The claim takes \<^verbatim>\<open>getButtonType\<close> to be the reference
  definition with presence checks. A button whose \<^verbatim>\<open>url\<close> is present and empty and whose
  \<^verbatim>\<open>phoneNumber\<close> is set is a call button for the code and a URL button for that reference:
  the code tests each field for truthiness.
\<close>

theorem getButtonType_presence_counterexample:
  "getButtonType (JObj [(''url'', JStr []), (''phoneNumber'', JStr ''+15551234567'')])
     = Inr (JStr ''cta_call'') \<and>
   classify_present (JObj [(''url'', JStr []), (''phoneNumber'', JStr ''+15551234567'')])
     = JStr ''cta_url''"
  by (simp add: getButtonType_def classify_present_def classify_by_def present_def rule_table_def)

text \<open>
  C5, amended: \<^verbatim>\<open>getButtonType\<close> never throws and equals the reference definition with
  truthiness in place of presence. A value that is not an object is a quick reply; a
  truthy \<^verbatim>\<open>type\<close> is returned as it is; otherwise the tag is that of the first field, in
  the order of the rule table, that is truthy, and a quick reply when none is. So a button
  with no truthy \<^verbatim>\<open>type\<close> whose \<^verbatim>\<open>url\<close> and \<^verbatim>\<open>phoneNumber\<close> are both truthy is a URL button.
\<close>

theorem getButtonType_truthy_reference:
  "getButtonType b = Inr (classify_truthy b) \<and>
   (typeof b = ''object'' \<and> \<not> truthy (field_of b ''type'') \<and> truthy (field_of b ''url'') \<and>
    truthy (field_of b ''phoneNumber'') \<longrightarrow> getButtonType b = Inr (JStr ''cta_url''))"
proof -
  have "classify_truthy b = JStr ''cta_url''"
    if "typeof b = ''object''" "\<not> truthy (field_of b ''type'')" "truthy (field_of b ''url'')"
  proof -
    from that(3) have "b \<noteq> JNull" by (auto simp: field_of_def)
    with that show ?thesis
      by (simp add: classify_truthy_def classify_by_def rule_table_def)
  qed
  then show ?thesis by (simp add: getButtonType_classify)
qed

theorem getButtonType_truthy_reference_witness:
  "getButtonType (JObj [(''url'', JStr ''https://example.com''),
                        (''phoneNumber'', JStr ''+15551234567'')]) = Inr (JStr ''cta_url'')"
  using getButtonType_truthy_reference
    [of "JObj [(''url'', JStr ''https://example.com''), (''phoneNumber'', JStr ''+15551234567'')]",
     THEN conjunct2]
  by (simp add: field_of_def)

section \<open>The validator\<close>

text \<open>
  C1: the claim is that \<^verbatim>\<open>validateInteractiveMessage\<close> returns a result for every argument,
  \<^verbatim>\<open>undefined\<close> and \<^verbatim>\<open>null\<close> for \<^verbatim>\<open>buttons\<close> included. The code records an error for a
  \<^verbatim>\<open>buttons\<close> that is not an array and then calls \<^verbatim>\<open>buttons.forEach\<close> all the same: for
  every \<^verbatim>\<open>buttons\<close> that is not an array the call throws, whatever the configuration.
\<close>

theorem validate_throws_without_array:
  "\<not> isArray buttons \<Longrightarrow> validateInteractiveMessage config buttons = Inl TypeError"
proof (cases "nullish config")
  case True
  then show ?thesis
    by (simp add: validateInteractiveMessage_def get_prop_nullish)
next
  case False
  assume "\<not> isArray buttons"
  then have "(case buttons of JArr bs \<Rightarrow> forEach_from 0 bs errs | _ \<Rightarrow> Inl TypeError) = Inl TypeError"
    for errs
    by (cases buttons) simp_all
  then show ?thesis
    by (simp add: validateInteractiveMessage_def get_prop_field [OF False] Let_def)
qed

theorem validate_throws_without_array_witness:
  "validateInteractiveMessage (JObj [(''body'', JStr ''x'')]) JUndefined = Inl TypeError \<and>
   validateInteractiveMessage (JObj [(''body'', JStr ''x'')]) JNull = Inl TypeError"
  using validate_throws_without_array [of JUndefined "JObj [(''body'', JStr ''x'')]"]
    validate_throws_without_array [of JNull "JObj [(''body'', JStr ''x'')]"]
  by simp

subsection \<open>The errors in closed form\<close>






lemma phone_check_throws:
  assumes "truthy v" and "to_string v = Inl TypeError"
  shows "(if \<not> truthy v then Inr True
          else ebind (RegExp_test phone_pattern v) (\<lambda>ok. Inr (\<not> ok))) = Inl TypeError"
  using assms by (simp add: RegExp_test_def)

lemma phone_passes_iff:
  "phone_passes v \<longleftrightarrow> truthy v \<and> (\<exists>s. to_string v = Inr s \<and> regex_test phone_pattern s)"
  by (cases "to_string v") (auto simp: phone_passes_def RegExp_test_def)


lemma validate_button_throws:
  assumes "\<not> nullish b" and "getButtonType b = Inr (JStr ''cta_call'')"
    and "truthy (field_of b ''phoneNumber'')"
    and "to_string (field_of b ''phoneNumber'') = Inl TypeError"
  shows "validate_button errs b i = Inl TypeError"
  using assms(2)
  by (simp add: validate_button_def get_prop_field [OF assms(1)] Let_def
      phone_check_throws [OF assms(3,4)])



lemma forEach_from_throws:
  assumes "b \<in> set bs" and "\<And>errs i. validate_button errs b i = Inl TypeError"
  shows "forEach_from i bs errs = Inl TypeError"
  using assms(1)
proof (induction bs arbitrary: i errs)
  case Nil
  then show ?case by simp
next
  case (Cons x xs)
  show ?case
  proof (cases "validate_button errs x i")
    case (Inl e)
    then show ?thesis by (cases e) simp
  next
    case (Inr errs')
    with assms(2) have "x \<noteq> b" by auto
    with Cons Inr show ?thesis by simp
  qed
qed

lemma validate_throws_on_phone:
  assumes "b \<in> set bs" and "\<not> nullish b" and "getButtonType b = Inr (JStr ''cta_call'')"
    and "truthy (field_of b ''phoneNumber'')"
    and "to_string (field_of b ''phoneNumber'') = Inl TypeError"
  shows "validateInteractiveMessage config (JArr bs) = Inl TypeError"
proof (cases "nullish config")
  case True
  then show ?thesis by (simp add: validateInteractiveMessage_def get_prop_nullish)
next
  case False
  have "forEach_from 0 bs errs = Inl TypeError" for errs
    by (rule forEach_from_throws [OF assms(1)]) (rule validate_button_throws [OF assms(2-5)])
  then show ?thesis
    by (simp add: validateInteractiveMessage_def get_prop_field [OF False] Let_def)
qed

subsection \<open>Error paths\<close>









subsection \<open>The phone pattern\<close>








subsection \<open>Which errors are reported\<close>








subsection \<open>Phone numbers\<close>





subsection \<open>No early termination\<close>





section \<open>The normalizer\<close>

lemma field_of_falsy: "\<not> truthy b \<Longrightarrow> \<not> truthy (field_of b k)"
  by (cases b) (auto simp: field_of_def)

lemma both_truthy_closed:
  "both_truthy b k1 k2 = Inr (truthy (field_of b k1) \<and> truthy (field_of b k2))"
proof (cases "truthy b")
  case True
  then have "\<And>k. get_prop b k = Inr (field_of b k)"
    by (simp add: get_prop_field truthy_not_nullish)
  with True show ?thesis by (simp add: both_truthy_def)
next
  case False
  then show ?thesis by (simp add: both_truthy_def field_of_falsy)
qed

lemma truthy_field_get_prop:
  "truthy (field_of b k) \<Longrightarrow> get_prop b k' = Inr (field_of b k')"
proof -
  assume "truthy (field_of b k)"
  with field_of_falsy [of b k] have "truthy b" by blast
  then show ?thesis by (simp add: get_prop_field truthy_not_nullish)
qed

lemma normalize_button_closed: "normalize_button b = Inr (normalized b)"
proof -
  have legacy: "get_prop b k = Inr (field_of b k)" if "truthy (field_of b ''id'')" for k
    using that by (rule truthy_field_get_prop)
  have old: "get_prop b k = Inr (field_of b k)" if "truthy (field_of b ''buttonId'')" for k
    using that by (rule truthy_field_get_prop)
  have inner: "get_prop (field_of b ''buttonText'') k = Inr (field_of (field_of b ''buttonText'') k)"
    if "truthy (field_of b ''buttonText'')" for k
    using that by (simp add: get_prop_field truthy_not_nullish)
  show ?thesis
    by (simp add: normalize_button_def both_truthy_closed normalized_def canonical_def
        legacy old inner getButtonType_classify legacy_entry_def old_entry_def)
qed

lemma map_e_closed: "(\<And>x. f x = Inr (g x)) \<Longrightarrow> map_e f xs = Inr (map g xs)"
  by (induction xs) simp_all

lemma buildInteractiveButtons_closed:
  "buildInteractiveButtons (JArr bs) = Inr (JArr (map normalized bs))"
  by (simp add: buildInteractiveButtons_def map_e_closed [of normalize_button normalized]
      normalize_button_closed)






lemma build_nth:
  "i < length xs \<Longrightarrow>
   \<exists>ys. buildInteractiveButtons (JArr xs) = Inr (JArr ys) \<and> length ys = length xs \<and>
        ys ! i = normalized (xs ! i)"
  by (simp add: buildInteractiveButtons_closed)




text \<open>
  C4, as the claim states it, fails: an entry whose \<^verbatim>\<open>subtitle\<close> is the empty string gets
  \<^verbatim>\<open>null\<close> for its subtitle, as the code writes \<^verbatim>\<open>subtitle || null\<close>. With the \<^verbatim>\<open>??\<close> of
  the claim the empty string would stay, and the serialized parameters would differ.
\<close>

theorem empty_subtitle_counterexample:
  "buildInteractiveButtons
     (JArr [JObj [(''id'', JStr ''a''), (''title'', JStr ''A''), (''subtitle'', JStr [])]])
   = Inr (JArr [JObj [(''name'', JStr ''quick_reply''),
                      (''buttonParamsJson'',
                       JSON_stringify (JObj [(''id'', JStr ''a''), (''title'', JStr ''A''),
                                             (''subtitle'', JNull),
                                             (''disabled'', JBool False)]))]]) \<and>
   JSON_stringify (JObj [(''id'', JStr ''a''), (''title'', JStr ''A''),
                         (''subtitle'', JNull), (''disabled'', JBool False)])
   \<noteq> JSON_stringify (JObj [(''id'', JStr ''a''), (''title'', JStr ''A''),
                           (''subtitle'', js_coalesce (JStr []) JNull),
                           (''disabled'', js_coalesce JUndefined (JBool False))])"
  by (simp add: buildInteractiveButtons_closed normalized_def canonical_def field_of_def
      legacy_entry_def classify_truthy_def classify_by_def rule_table_def js_or_def
      js_coalesce_def nullish_def JSON_stringify_def json_quote_def json_quote_char_def)

text \<open>
  C4, amended: an entry of the input that fails the test of the first rule and whose
  \<^verbatim>\<open>id\<close> and \<^verbatim>\<open>title\<close> are truthy becomes \<^verbatim>\<open>{name, buttonParamsJson}\<close>, where \<^verbatim>\<open>name\<close> is its
  type as \<^verbatim>\<open>getButtonType\<close> finds it and \<^verbatim>\<open>buttonParamsJson\<close> is the JSON text of
  \<^verbatim>\<open>{id, title, subtitle: subtitle || null, disabled: disabled || false}\<close>. A subtitle that
  is falsy, the empty string as well as an absent one, becomes \<^verbatim>\<open>null\<close>.
\<close>

theorem legacy_entry_emitted:
  assumes "i < length xs" and "\<not> canonical (xs ! i)"
    and "truthy (field_of (xs ! i) ''id'')" and "truthy (field_of (xs ! i) ''title'')"
  shows "\<exists>ys t. buildInteractiveButtons (JArr xs) = Inr (JArr ys) \<and> length ys = length xs \<and>
    getButtonType (xs ! i) = Inr t \<and>
    ys ! i =
      JObj [(''name'', t),
            (''buttonParamsJson'',
             JSON_stringify
               (JObj [(''id'', field_of (xs ! i) ''id''),
                      (''title'', field_of (xs ! i) ''title''),
                      (''subtitle'', js_or (field_of (xs ! i) ''subtitle'') JNull),
                      (''disabled'', js_or (field_of (xs ! i) ''disabled'') (JBool False))]))] \<and>
    (\<not> truthy (field_of (xs ! i) ''subtitle'') \<longrightarrow>
       js_or (field_of (xs ! i) ''subtitle'') JNull = JNull)"
proof -
  from assms have "normalized (xs ! i) = legacy_entry (xs ! i)"
    by (simp add: normalized_def)
  with build_nth [OF assms(1)] show ?thesis
    by (auto simp add: getButtonType_classify legacy_entry_def js_or_def)
qed

text \<open>The theorem at one entry with an empty subtitle.\<close>

theorem legacy_entry_emitted_witness:
  "\<exists>ys. buildInteractiveButtons
          (JArr [JObj [(''id'', JStr ''a''), (''title'', JStr ''A''), (''subtitle'', JStr [])]])
        = Inr (JArr ys) \<and>
        ys ! 0 =
          JObj [(''name'', JStr ''quick_reply''),
                (''buttonParamsJson'',
                 JSON_stringify (JObj [(''id'', JStr ''a''), (''title'', JStr ''A''),
                                       (''subtitle'', JNull), (''disabled'', JBool False)]))]"
  using legacy_entry_emitted
    [of 0 "[JObj [(''id'', JStr ''a''), (''title'', JStr ''A''), (''subtitle'', JStr [])]]"]
  by (auto simp add: canonical_def field_of_def getButtonType_def js_or_def)

text \<open>
  C10, as the claim states it, fails: an entry whose \<^verbatim>\<open>id\<close> is the empty string is not
  always passed through. When its \<^verbatim>\<open>buttonId\<close> and \<^verbatim>\<open>buttonText\<close> are truthy the old-Baileys
  rule converts it.
\<close>

theorem falsy_id_converted_counterexample:
  "\<not> truthy (field_of (JObj [(''id'', JStr []), (''title'', JStr ''T''),
                              (''buttonId'', JStr ''b1''), (''buttonText'', JStr ''Press'')]) ''id'') \<and>
   buildInteractiveButtons
     (JArr [JObj [(''id'', JStr []), (''title'', JStr ''T''),
                  (''buttonId'', JStr ''b1''), (''buttonText'', JStr ''Press'')]])
   = Inr (JArr [JObj [(''name'', JStr ''quick_reply''),
                      (''buttonParamsJson'',
                       JSON_stringify (JObj [(''id'', JStr ''b1''), (''title'', JStr ''Press''),
                                             (''subtitle'', JNull),
                                             (''disabled'', JBool False)]))]]) \<and>
   buildInteractiveButtons
     (JArr [JObj [(''id'', JStr []), (''title'', JStr ''T''),
                  (''buttonId'', JStr ''b1''), (''buttonText'', JStr ''Press'')]])
   \<noteq> Inr (JArr [JObj [(''id'', JStr []), (''title'', JStr ''T''),
                        (''buttonId'', JStr ''b1''), (''buttonText'', JStr ''Press'')]])"
  by (simp add: buildInteractiveButtons_closed normalized_def canonical_def field_of_def
      old_entry_def classify_truthy_def classify_by_def rule_table_def js_or_def)

text \<open>
  C10, amended: the shape tests of the normalizer are truthiness tests. An entry whose
  \<^verbatim>\<open>id\<close> or \<^verbatim>\<open>title\<close> is falsy is never converted by the simple-legacy rule, and an entry
  whose \<^verbatim>\<open>buttonId\<close> or \<^verbatim>\<open>buttonText\<close> is falsy is never converted by the old-Baileys rule;
  an entry for which both hold is passed through unchanged.
\<close>

theorem falsy_shape_not_converted:
  assumes "i < length xs"
  shows "\<exists>ys. buildInteractiveButtons (JArr xs) = Inr (JArr ys) \<and> length ys = length xs \<and>
    ((\<not> truthy (field_of (xs ! i) ''id'') \<or> \<not> truthy (field_of (xs ! i) ''title'')) \<and>
     (\<not> truthy (field_of (xs ! i) ''buttonId'') \<or> \<not> truthy (field_of (xs ! i) ''buttonText''))
       \<longrightarrow> ys ! i = xs ! i) \<and>
    (\<not> truthy (field_of (xs ! i) ''id'') \<or> \<not> truthy (field_of (xs ! i) ''title'')
       \<longrightarrow> ys ! i =
           (if \<not> canonical (xs ! i) \<and> truthy (field_of (xs ! i) ''buttonId'') \<and>
               truthy (field_of (xs ! i) ''buttonText'')
            then old_entry (xs ! i) else xs ! i)) \<and>
    (\<not> truthy (field_of (xs ! i) ''buttonId'') \<or> \<not> truthy (field_of (xs ! i) ''buttonText'')
       \<longrightarrow> ys ! i =
           (if \<not> canonical (xs ! i) \<and> truthy (field_of (xs ! i) ''id'') \<and>
               truthy (field_of (xs ! i) ''title'')
            then legacy_entry (xs ! i) else xs ! i))"
  using build_nth [OF assms] by (auto simp add: normalized_def)

text \<open>The theorem at an entry whose \<^verbatim>\<open>id\<close> is the empty string.\<close>

theorem falsy_shape_not_converted_witness:
  "buildInteractiveButtons (JArr [JObj [(''id'', JStr []), (''title'', JStr ''T'')]])
   = Inr (JArr [JObj [(''id'', JStr []), (''title'', JStr ''T'')]])"
proof -
  from falsy_shape_not_converted [of 0 "[JObj [(''id'', JStr []), (''title'', JStr ''T'')]]"]
  obtain ys where
    "buildInteractiveButtons (JArr [JObj [(''id'', JStr []), (''title'', JStr ''T'')]])
       = Inr (JArr ys)"
    "length ys = 1" "ys ! 0 = JObj [(''id'', JStr []), (''title'', JStr ''T'')]"
    by (auto simp add: field_of_def)
  moreover from this(2,3) have "ys = [JObj [(''id'', JStr []), (''title'', JStr ''T'')]]"
    by (cases ys) auto
  ultimately show ?thesis by simp
qed

section \<open>The message content\<close>

lemma map_of_set_prop_same: "map_of (set_prop kvs k v) k = Some v"
  by (induction kvs) auto

lemma map_of_set_prop_other: "k' \<noteq> k \<Longrightarrow> map_of (set_prop kvs k v) k' = map_of kvs k'"
  by (induction kvs) auto

lemma project_button_closed:
  "\<not> nullish b \<Longrightarrow> project_button b =
     Inr (JObj [(''name'', field_of b ''name''), (''buttonParamsJson'', field_of b ''buttonParamsJson'')])"
  by (simp add: project_button_def get_prop_field)

lemma map_e_project:
  "\<forall>b\<in>set bs. \<not> nullish b \<Longrightarrow> \<exists>entries. map_e project_button bs = Inr entries"
  by (induction bs) (auto simp: project_button_closed)

lemma header_of_content:
  "header_of (JObj [(''interactive'',
                     JObj [(''nativeFlow'',
                            JObj [(''buttons'', JArr entries),
                                  (''messageParams'', JObj params)])])])
   = Inr (case map_of params ''header'' of None \<Rightarrow> JUndefined | Some h \<Rightarrow> h)"
  by (simp add: header_of_def)

lemma text_header:
  assumes c: "\<not> nullish config" and bs: "\<forall>b\<in>set bs. \<not> nullish b"
    and t: "truthy (field_of config ''headerText'')"
    and m: "\<not> truthy (field_of config ''headerMedia'')"
  shows "\<exists>content. buildMessageContent config (JArr bs) = Inr content \<and>
    header_of content =
      Inr (JObj [(''type'', js_or (field_of config ''headerType'') (JNum 1)),
                 (''text'', field_of config ''headerText'')])"
proof -
  from map_e_project [OF bs] obtain entries where e: "map_e project_button bs = Inr entries"
    by blast
  show ?thesis
    by (simp add: buildMessageContent_def e get_prop_field [OF c] t m Let_def header_of_content
        map_of_set_prop_same)
qed

lemma media_header:
  assumes c: "\<not> nullish config" and bs: "\<forall>b\<in>set bs. \<not> nullish b"
    and m: "truthy (field_of config ''headerMedia'')"
  shows "\<exists>content. buildMessageContent config (JArr bs) = Inr content \<and>
    header_of content =
      Inr (JObj [(''type'',
                  if field_of (field_of config ''headerMedia'') ''mediaType'' = JStr ''image''
                  then JNum 1
                  else if field_of (field_of config ''headerMedia'') ''mediaType'' = JStr ''video''
                  then JNum 2 else JNum 3),
                 (''text'', js_or (field_of config ''headerText'') (JStr [])),
                 (''media'',
                  JObj [(''url'', field_of (field_of config ''headerMedia'') ''mediaUrl''),
                        (''caption'',
                         js_or (field_of (field_of config ''headerMedia'') ''mediaCaption'')
                               (JStr []))])])"
proof -
  from map_e_project [OF bs] obtain entries where e: "map_e project_button bs = Inr entries"
    by blast
  from m have g: "\<And>k. get_prop (field_of config ''headerMedia'') k
      = Inr (field_of (field_of config ''headerMedia'') k)"
    by (simp add: get_prop_field truthy_not_nullish)
  show ?thesis
    by (simp add: buildMessageContent_def e get_prop_field [OF c] m g Let_def header_of_content
        map_of_set_prop_same)
qed

text \<open>
  C3, as the claim states it, fails: with \<^verbatim>\<open>headerType\<close> 0 the header gets the type 1, as
  the code writes \<^verbatim>\<open>config.headerType || 1\<close>; the \<^verbatim>\<open>??\<close> of the claim would keep 0.
\<close>

theorem header_type_zero_counterexample:
  "ebind (buildMessageContent
            (JObj [(''body'', JStr ''b''), (''headerText'', JStr ''H''), (''headerType'', JNum 0)])
            (JArr [])) header_of
   = Inr (JObj [(''type'', JNum 1), (''text'', JStr ''H'')]) \<and>
   js_coalesce
     (field_of (JObj [(''body'', JStr ''b''), (''headerText'', JStr ''H''), (''headerType'', JNum 0)])
        ''headerType'') (JNum 1)
   = JNum 0"
  by (simp add: buildMessageContent_def header_of_def js_or_def js_coalesce_def nullish_def
      field_of_def)

text \<open>
  C3, amended: for a configuration whose \<^verbatim>\<open>headerText\<close> is truthy (a string that is not
  empty) and whose \<^verbatim>\<open>headerMedia\<close> is not set, the header of the assembled content is
  \<^verbatim>\<open>{type: config.headerType || 1, text: config.headerText}\<close>: the type is \<^verbatim>\<open>headerType\<close>
  when that is truthy, and 1 when it is absent, \<^verbatim>\<open>null\<close>, 0 or \<^verbatim>\<open>NaN\<close>. The configuration and
  the entries are values other than \<^verbatim>\<open>undefined\<close> and \<^verbatim>\<open>null\<close>.
\<close>

theorem text_header_truthy_default:
  assumes "\<not> nullish config" and "\<forall>b\<in>set bs. \<not> nullish b"
    and "truthy (field_of config ''headerText'')"
    and "\<not> truthy (field_of config ''headerMedia'')"
  shows "\<exists>content. buildMessageContent config (JArr bs) = Inr content \<and>
    header_of content =
      Inr (JObj [(''type'', if truthy (field_of config ''headerType'')
                            then field_of config ''headerType'' else JNum 1),
                 (''text'', field_of config ''headerText'')])"
  using text_header [OF assms] by (simp add: js_or_def)

text \<open>The theorem at a configuration with the header type 2.\<close>

theorem text_header_truthy_default_witness:
  "\<exists>content.
     buildMessageContent
       (JObj [(''body'', JStr ''b''), (''headerText'', JStr ''H''), (''headerType'', JNum 2)])
       (JArr []) = Inr content \<and>
     header_of content = Inr (JObj [(''type'', JNum 2), (''text'', JStr ''H'')])"
  using text_header_truthy_default
    [of "JObj [(''body'', JStr ''b''), (''headerText'', JStr ''H''), (''headerType'', JNum 2)]" "[]"]
  by (simp add: nullish_def field_of_def)

lemma optional_string_default:
  "optional_string v \<Longrightarrow> js_or v (JStr []) = js_coalesce v (JStr [])"
  by (cases v) (auto simp: optional_string_def js_or_def js_coalesce_def nullish_def)

text \<open>
  C8: for a configuration whose \<^verbatim>\<open>headerMedia\<close> is set, the header of the assembled content
  is the media header, whatever \<^verbatim>\<open>headerText\<close> is: its type is 1 for an image, 2 for a
  video and 3 for a document or any other media type, its text is \<^verbatim>\<open>headerText ?? ""\<close>, its
  media are the URL and \<^verbatim>\<open>mediaCaption ?? ""\<close>. The optional strings \<^verbatim>\<open>headerText\<close> and
  \<^verbatim>\<open>mediaCaption\<close> are strings or absent, as their types declare; the configuration and the
  entries are values other than \<^verbatim>\<open>undefined\<close> and \<^verbatim>\<open>null\<close>.
\<close>

theorem media_header_overrides:
  assumes "\<not> nullish config" and "\<forall>b\<in>set bs. \<not> nullish b"
    and "truthy (field_of config ''headerMedia'')"
    and "optional_string (field_of config ''headerText'')"
    and "optional_string (field_of (field_of config ''headerMedia'') ''mediaCaption'')"
  shows "\<exists>content. buildMessageContent config (JArr bs) = Inr content \<and>
    header_of content =
      Inr (JObj [(''type'',
                  if field_of (field_of config ''headerMedia'') ''mediaType'' = JStr ''image''
                  then JNum 1
                  else if field_of (field_of config ''headerMedia'') ''mediaType'' = JStr ''video''
                  then JNum 2
                  else if field_of (field_of config ''headerMedia'') ''mediaType'' = JStr ''document''
                  then JNum 3
                  else JNum 3),
                 (''text'', js_coalesce (field_of config ''headerText'') (JStr [])),
                 (''media'',
                  JObj [(''url'', field_of (field_of config ''headerMedia'') ''mediaUrl''),
                        (''caption'',
                         js_coalesce (field_of (field_of config ''headerMedia'') ''mediaCaption'')
                                     (JStr []))])])"
  using media_header [OF assms(1,2,3)] optional_string_default [OF assms(4)]
    optional_string_default [OF assms(5)]
  by auto

text \<open>
  The theorem at the configuration of the specification's scenario: the header has the
  type 2 and the media, although \<^verbatim>\<open>headerText\<close> is set.
\<close>

theorem media_header_overrides_witness:
  "\<exists>content.
     buildMessageContent
       (JObj [(''body'', JStr ''b''), (''headerText'', JStr ''H''),
              (''headerMedia'', JObj [(''mediaType'', JStr ''video''), (''mediaUrl'', JStr ''u'')])])
       (JArr []) = Inr content \<and>
     header_of content =
       Inr (JObj [(''type'', JNum 2), (''text'', JStr ''H''),
                  (''media'', JObj [(''url'', JStr ''u''), (''caption'', JStr [])])])"
  using media_header_overrides
    [of "JObj [(''body'', JStr ''b''), (''headerText'', JStr ''H''),
               (''headerMedia'', JObj [(''mediaType'', JStr ''video''), (''mediaUrl'', JStr ''u'')])]"
        "[]"]
  by (simp add: nullish_def field_of_def optional_string_def js_coalesce_def)

section \<open>The structured validation error\<close>

text \<open>
  C9: \<^verbatim>\<open>addContext\<close> returns a new error. Its message is the message of the original followed
  by \<^verbatim>\<open>" in "\<close> and the context given, its context that of the original followed by
  \<^verbatim>\<open>" -> "\<close> and the context given; its errors, warnings and example are those of the
  original. The original, and every other object of the store, is as it was.
\<close>

theorem addContext_returns_new_error:
  assumes "objects st a = Some e" and "a < next_ref st"
  shows "\<exists>r st'. addContext st a ctx = Inr (r, st') \<and> r \<noteq> a \<and>
    objects st' r =
      Some \<lparr>e_name = ''InteractiveValidationError'',
            e_message = e_message e @ '' in '' @ ctx,
            e_context = e_context e @ '' -> '' @ ctx,
            e_errors = e_errors e,
            e_warnings = e_warnings e,
            e_example = e_example e\<rparr> \<and>
    objects st' a = Some e \<and>
    (\<forall>b. b \<noteq> r \<longrightarrow> objects st' b = objects st b)"
  using assms by (auto simp add: addContext_def new_InteractiveValidationError_def Let_def)


text \<open>
  The theorem at a store that holds one error, at the reference 0: the new error is at
  another reference and the one at 0 is as it was.
\<close>

theorem addContext_returns_new_error_witness:
  "\<exists>r st'.
     addContext
       \<lparr>objects = (\<lambda>a. None)(0 := Some \<lparr>e_name = ''InteractiveValidationError'',
                                          e_message = ''Invalid input'',
                                          e_context = ''send'',
                                          e_errors = [], e_warnings = [],
                                          e_example = JUndefined\<rparr>),
        next_ref = 1\<rparr> 0 ''retry'' = Inr (r, st') \<and>
     r \<noteq> 0 \<and>
     objects st' r = Some \<lparr>e_name = ''InteractiveValidationError'',
                          e_message = ''Invalid input in retry'',
                          e_context = ''send -> retry'',
                          e_errors = [], e_warnings = [],
                          e_example = JUndefined\<rparr> \<and>
     objects st' 0 = Some \<lparr>e_name = ''InteractiveValidationError'',
                          e_message = ''Invalid input'',
                          e_context = ''send'',
                          e_errors = [], e_warnings = [],
                          e_example = JUndefined\<rparr>"
  using addContext_returns_new_error
    [where st = "\<lparr>objects = (\<lambda>a. None)(0 := Some \<lparr>e_name = ''InteractiveValidationError'',
                                          e_message = ''Invalid input'',
                                          e_context = ''send'',
                                          e_errors = [], e_warnings = [],
                                          e_example = JUndefined\<rparr>),
        next_ref = 1\<rparr>" and a = 0 and ctx = "''retry''"
      and e = "\<lparr>e_name = ''InteractiveValidationError'',
                                          e_message = ''Invalid input'',
                                          e_context = ''send'',
                                          e_errors = [], e_warnings = [],
                                          e_example = JUndefined\<rparr>"]
  by simp blast

end
